theory Spec2Isabelle
  imports Complex_Main
begin

section \<open>Python values shared by both modules\<close>

text \<open>
  Byte strings (\<^verbatim>\<open>bytes\<close>) and the ASCII text of a PLY header are both \<^typ>\<open>string\<close>:
  a list of 8-bit characters. The elements of the arrays and the volumes are the real
  numbers they denote, and arithmetic on them is exact: rounding is not modelled. The
  growth percentage is computed on \<open>pyfloat\<close> values, which have the infinities and NaN
  and where a result beyond the range of a float is an infinity. Exceptions are values
  of \<open>py_error\<close>, and a computation that may raise returns \<open>py_error + 'a\<close> with
  \<open>Inl\<close> for the exception.
\<close>

datatype py_error =
    ValueError string
  | StructError
  | IndexError
  | KeyError string
  | ZeroDivisionError
  | ImportError string
  | LibraryError string
  | OverflowError
  | MemoryError

definition bind_err :: "py_error + 'a \<Rightarrow> ('a \<Rightarrow> py_error + 'b) \<Rightarrow> py_error + 'b" where
  "bind_err m k = (case m of Inl e \<Rightarrow> Inl e | Inr x \<Rightarrow> k x)"

section \<open>ply\_to\_splat.py: reading the header\<close>

text \<open>\<^verbatim>\<open>line.startswith(p)\<close> and \<^verbatim>\<open>sub in line\<close> on byte strings and text.\<close>

fun startswith :: "string \<Rightarrow> string \<Rightarrow> bool" where
  "startswith s [] = True"
| "startswith [] (p # ps) = False"
| "startswith (c # cs) (p # ps) = (c = p \<and> startswith cs ps)"

fun bytes_in :: "string \<Rightarrow> string \<Rightarrow> bool" where
  "bytes_in sub [] = (sub = [])"
| "bytes_in sub (c # cs) = (startswith (c # cs) sub \<or> bytes_in sub cs)"

text \<open>
  \<^verbatim>\<open>f.readline()\<close> on a binary file whose unread part is the argument: the bytes up to
  and including the next newline, or all that is left when there is none. At end of
  file it returns the empty byte string and leaves the file where it is.
\<close>

fun readline :: "string \<Rightarrow> string \<times> string" where
  "readline [] = ([], [])"
| "readline (c # cs) =
     (if c = CHR 0x0A then ([c], cs)
      else (case readline cs of (l, r) \<Rightarrow> (c # l, r)))"

text \<open>
  The loop of lines 30 to 35:
  \<^verbatim>\<open>
  header = b''
  while True:
      line = f.readline()
      header += line
      if b'end_header' in line:
          break
  \<close>
  The state is the header read so far and the unread part of the file. The loop has
  no other exit, so it is a partial function: \<open>None\<close> is "never returns".
\<close>

partial_function (option) read_header :: "string \<Rightarrow> string \<Rightarrow> (string \<times> string) option" where
  "read_header header f =
     (case readline f of (line, f') \<Rightarrow>
        if bytes_in ''end_header'' line then Some (header @ line, f')
        else read_header (header @ line) f')"

declare read_header.simps [code]

text \<open>The lines of a file, as successive calls of \<open>readline\<close> return them.\<close>

function file_lines :: "string \<Rightarrow> string list" where
  "file_lines f = (if f = [] then [] else fst (readline f) # file_lines (snd (readline f)))"
  by pat_completeness auto
termination
proof (relation "measure length")
  show "wf (measure length)" by simp
next
  fix f :: string
  assume "f \<noteq> []"
  then have "0 < length f" by simp
  moreover have "length (snd (readline g)) \<le> length g - 1" for g
    by (induction g) (auto split: prod.splits)
  ultimately have "length (snd (readline f)) < length f"
    by (metis One_nat_def Suc_pred less_Suc_eq_le)
  then show "(snd (readline f), f) \<in> measure length" by simp
qed

section \<open>ply\_to\_splat.py: the vertex count\<close>

text \<open>
  The header text is \<^verbatim>\<open>header.decode('utf-8', errors='ignore')\<close>. A PLY header is ASCII,
  where decoding is the identity; the functions below work on that text.

  \<^verbatim>\<open>header_str.split('\n')\<close>: the pieces between newlines, empty pieces included.
\<close>

fun split_nl :: "string \<Rightarrow> string list" where
  "split_nl [] = [[]]"
| "split_nl (c # cs) =
     (if c = CHR 0x0A then [] # split_nl cs
      else (case split_nl cs of [] \<Rightarrow> [[c]] | l # ls \<Rightarrow> (c # l) # ls))"

text \<open>\<^verbatim>\<open>line.split()\<close>: the maximal runs of non-whitespace characters.\<close>

definition is_space :: "char \<Rightarrow> bool" where
  "is_space c \<longleftrightarrow> c \<in> set [CHR 0x09, CHR 0x0A, CHR 0x0B, CHR 0x0C, CHR 0x0D,
                              CHR 0x1C, CHR 0x1D, CHR 0x1E, CHR 0x1F, CHR 0x20]"

fun split_ws :: "string \<Rightarrow> string \<Rightarrow> string list" where
  "split_ws cur [] = (if cur = [] then [] else [cur])"
| "split_ws cur (c # cs) =
     (if is_space c then (if cur = [] then split_ws [] cs else cur # split_ws [] cs)
      else split_ws (cur @ [c]) cs)"

definition str_split :: "string \<Rightarrow> string list" where
  "str_split s = split_ws [] s"

text \<open>
  \<^verbatim>\<open>int(s)\<close> on a token without whitespace: an optional sign, then decimal digits, where
  single underscores may stand between digits. Anything else raises \<open>ValueError\<close>.
  (The limit that newer interpreters put on the number of digits is not modelled.)
\<close>

definition is_digit :: "char \<Rightarrow> bool" where
  "is_digit c \<longleftrightarrow> c \<in> set ''0123456789''"

definition digit_val :: "char \<Rightarrow> nat" where
  "digit_val c = of_char c - 48"

fun parse_digits :: "string \<Rightarrow> bool \<Rightarrow> nat \<Rightarrow> nat option" where
  "parse_digits [] prev acc = (if prev then Some acc else None)"
| "parse_digits (c # cs) prev acc =
     (if is_digit c then parse_digits cs True (10 * acc + digit_val c)
      else if c = CHR ''_'' \<and> prev then parse_digits cs False acc
      else None)"

definition invalid_literal :: py_error where
  "invalid_literal = ValueError ''invalid literal for int() with base 10''"

definition py_int :: "string \<Rightarrow> py_error + int" where
  "py_int s =
     (case s of
        [] \<Rightarrow> Inl invalid_literal
      | c # cs \<Rightarrow>
          if c = CHR ''-'' then
            (case parse_digits cs False 0 of None \<Rightarrow> Inl invalid_literal
             | Some n \<Rightarrow> Inr (- int n))
          else if c = CHR ''+'' then
            (case parse_digits cs False 0 of None \<Rightarrow> Inl invalid_literal
             | Some n \<Rightarrow> Inr (int n))
          else
            (case parse_digits (c # cs) False 0 of None \<Rightarrow> Inl invalid_literal
             | Some n \<Rightarrow> Inr (int n)))"

text \<open>
  Lines 39 to 46:
  \<^verbatim>\<open>
  vertex_count = 0
  for line in header_str.split('\n'):
      if line.startswith('element vertex'):
          vertex_count = int(line.split()[-1])
          break
  if vertex_count == 0:
      raise ValueError("Could not determine vertex count from PLY header")
  \<close>
  \<open>scan_lines\<close> is the loop: the count it leaves in \<open>vertex_count\<close>, or the exception of
  \<^verbatim>\<open>int\<close>.
\<close>

definition last_token :: "string \<Rightarrow> py_error + string" where
  "last_token line = (case str_split line of [] \<Rightarrow> Inl IndexError | t # ts \<Rightarrow> Inr (last (t # ts)))"

fun scan_lines :: "string list \<Rightarrow> py_error + int" where
  "scan_lines [] = Inr 0"
| "scan_lines (line # ls) =
     (if startswith line ''element vertex'' then bind_err (last_token line) py_int
      else scan_lines ls)"

definition no_vertex_count :: py_error where
  "no_vertex_count = ValueError ''Could not determine vertex count from PLY header''"

definition parse_vertex_count :: "string \<Rightarrow> py_error + int" where
  "parse_vertex_count header_str =
     bind_err (scan_lines (split_nl header_str))
       (\<lambda>vertex_count. if vertex_count = 0 then Inl no_vertex_count else Inr vertex_count)"

text \<open>The first line carrying the declaration, if there is one.\<close>

definition vertex_line :: "string \<Rightarrow> string option" where
  "vertex_line header_str =
     find (\<lambda>line. startswith line ''element vertex'') (split_nl header_str)"

section \<open>ply\_to\_splat.py: the vertex data\<close>

text \<open>
  A \<^verbatim>\<open>float32\<close> element of a buffer is kept as its four bytes, in file order.
  \<^verbatim>\<open>np.frombuffer(b, dtype=np.float32)\<close> raises \<open>ValueError\<close> unless the buffer is a
  whole number of elements.
\<close>

datatype float32 = F32 char char char char

fun np_frombuffer :: "string \<Rightarrow> py_error + float32 list" where
  "np_frombuffer [] = Inr []"
| "np_frombuffer (a # b # c # d # bs) =
     bind_err (np_frombuffer bs) (\<lambda>xs. Inr (F32 a b c d # xs))"
| "np_frombuffer bs = Inl (ValueError ''buffer size must be a multiple of element size'')"

text \<open>
  A two-dimensional array: its rows and its second dimension (which the rows cannot
  tell when there are none, or when it is 0). \<^verbatim>\<open>a.reshape(r, c)\<close> of a flat array raises
  \<open>ValueError\<close> unless the array has \<open>r * c\<close> elements.
\<close>

record 'a ndarray =
  rows :: "'a list list"
  ncols :: nat

definition np_reshape :: "'a list \<Rightarrow> nat \<Rightarrow> nat \<Rightarrow> py_error + 'a ndarray" where
  "np_reshape xs r c =
     (if length xs = r * c
      then Inr \<lparr>rows = map (\<lambda>i. take c (drop (i * c) xs)) [0..<r], ncols = c\<rparr>
      else Inl (ValueError ''cannot reshape array''))"

text \<open>
  \<^verbatim>\<open>f.seek(pos); f.read(n)\<close> and \<^verbatim>\<open>f.seek(pos); f.read()\<close> on a file with the given
  content. After the header loop the file stands at \<^verbatim>\<open>len(header)\<close>.

  \<^verbatim>\<open>f.read(n)\<close> allocates \<open>n\<close> bytes before it reads: a count above the largest index
  of the interpreter (\<^verbatim>\<open>sys.maxsize\<close>) raises \<open>OverflowError\<close>, and a byte string too
  long to allocate raises \<open>MemoryError\<close>. Both bounds belong to the machine and are
  parameters. What several allocations use together is not modelled.
\<close>

record machine =
  max_index :: nat
  max_alloc :: nat

definition can_read :: "machine \<Rightarrow> nat \<Rightarrow> bool" where
  "can_read m n \<longleftrightarrow> n \<le> max_index m \<and> n \<le> max_alloc m"

definition read_at :: "machine \<Rightarrow> string \<Rightarrow> nat \<Rightarrow> nat \<Rightarrow> py_error + string" where
  "read_at m content pos n =
     (if max_index m < n then Inl OverflowError
      else if max_alloc m < n then Inl MemoryError
      else Inr (take n (drop pos content)))"

definition read_rest :: "machine \<Rightarrow> string \<Rightarrow> nat \<Rightarrow> py_error + string" where
  "read_rest m content pos =
     (if max_alloc m < length content - pos then Inl MemoryError
      else Inr (drop pos content))"

text \<open>A 64-bit machine that can allocate up to \<open>2\<^sup>4\<^sup>0\<close> bytes at once.\<close>

definition machine64 :: machine where
  "machine64 = \<lparr>max_index = 9223372036854775807, max_alloc = 1099511627776\<rparr>"

text \<open>
  Lines 54 to 69, for a vertex count that is a natural number (the header check lets a
  negative count through; what the array library does with it is not modelled):
  \<^verbatim>\<open>
  try:
      vertex_data = np.frombuffer(f.read(vertex_count * 62 * 4),
                                  dtype=np.float32).reshape(vertex_count, 62)
  except ValueError:
      f.seek(len(header))
      remaining = f.read()
      floats_per_vertex = len(remaining) // (vertex_count * 4)
      f.seek(len(header))
      vertex_data = np.frombuffer(f.read(vertex_count * floats_per_vertex * 4),
                                  dtype=np.float32).reshape(vertex_count, floats_per_vertex)
  \<close>
\<close>

definition read_standard :: "machine \<Rightarrow> string \<Rightarrow> nat \<Rightarrow> nat \<Rightarrow> py_error + float32 ndarray" where
  "read_standard m content header_len vertex_count =
     bind_err (read_at m content header_len (vertex_count * 62 * 4)) (\<lambda>bs.
     bind_err (np_frombuffer bs) (\<lambda>xs.
     np_reshape xs vertex_count 62))"

definition read_fallback :: "machine \<Rightarrow> string \<Rightarrow> nat \<Rightarrow> nat \<Rightarrow> py_error + float32 ndarray" where
  "read_fallback m content header_len vertex_count =
     bind_err (read_rest m content header_len) (\<lambda>remaining.
       if vertex_count * 4 = 0 then Inl ZeroDivisionError
       else
         (let floats_per_vertex = length remaining div (vertex_count * 4) in
          bind_err (read_at m content header_len (vertex_count * floats_per_vertex * 4)) (\<lambda>bs.
          bind_err (np_frombuffer bs) (\<lambda>xs.
          np_reshape xs vertex_count floats_per_vertex))))"

text \<open>
  \<^verbatim>\<open>except ValueError\<close> catches the \<open>ValueError\<close> of \<^verbatim>\<open>frombuffer\<close> and of \<^verbatim>\<open>reshape\<close>; any
  other exception of the \<^verbatim>\<open>try\<close> block, and any of the fallback, leaves the function.
\<close>

definition read_vertex_data :: "machine \<Rightarrow> string \<Rightarrow> nat \<Rightarrow> nat \<Rightarrow> py_error + float32 ndarray" where
  "read_vertex_data m content header_len vertex_count =
     (case read_standard m content header_len vertex_count of
        Inr vertex_data \<Rightarrow> Inr vertex_data
      | Inl (ValueError msg) \<Rightarrow> read_fallback m content header_len vertex_count
      | Inl e \<Rightarrow> Inl e)"

text \<open>The elements of a buffer, for a buffer of any length: a trailing part element is dropped.\<close>

fun f32_cells :: "string \<Rightarrow> float32 list" where
  "f32_cells (a # b # c # d # bs) = F32 a b c d # f32_cells bs"
| "f32_cells bs = []"

section \<open>ply\_to\_splat.py: the properties of each splat\<close>

text \<open>
  Lines 73 to 105 work on whole columns of \<open>vertex_data\<close>, here an array of reals. A
  slice \<^verbatim>\<open>a[:, i:j]\<close> never raises: it keeps the columns that exist.
\<close>

definition col_slice :: "'a ndarray \<Rightarrow> nat \<Rightarrow> nat \<Rightarrow> 'a list list" where
  "col_slice a i j = map (\<lambda>row. take (j - i) (drop i row)) (rows a)"

definition clip :: "real \<Rightarrow> real \<Rightarrow> real \<Rightarrow> real" where
  "clip x lo hi = min (max x lo) hi"

text \<open>The logistic transform, \<open>p = 1 / (1 + e\<^sup>-\<^sup>x)\<close>, to compare the code's formula with.\<close>

definition logistic :: "real \<Rightarrow> real" where
  "logistic x = 1 / (1 + exp (- x))"

definition linalg_norm :: "real list \<Rightarrow> real" where
  "linalg_norm q = sqrt (sum_list (map (\<lambda>v. v * v) q))"

record splat_arrays =
  positions :: "real list list"
  colors :: "real list list"
  opacity :: "real list"
  scale :: "real list list"
  rot :: "real list list"

definition extract_properties :: "real ndarray \<Rightarrow> nat \<Rightarrow> splat_arrays" where
  "extract_properties vertex_data vertex_count =
     \<lparr>positions = col_slice vertex_data 0 3,
      colors =
        (if ncols vertex_data > 8
         then map (map (\<lambda>v. clip (v * 0.28209479177387814 + 0.5) 0 1))
                (col_slice vertex_data 6 9)
         else replicate vertex_count [0.5, 0.5, 0.5]),
      opacity =
        (if ncols vertex_data > 54
         then map (\<lambda>row. 1 / (1 + exp (- (row ! 54)))) (rows vertex_data)
         else replicate vertex_count 0.8),
      scale =
        (if ncols vertex_data > 57
         then map (map exp) (col_slice vertex_data 55 58)
         else replicate vertex_count [0.01, 0.01, 0.01]),
      rot =
        (if ncols vertex_data > 61
         then map (\<lambda>q. map (\<lambda>v. v / (linalg_norm q + 0.00000001)) q)
                (col_slice vertex_data 58 62)
         else replicate vertex_count [1, 0, 0, 0])\<rparr>"

text \<open>An array as \<open>np_reshape\<close> makes it: every row has \<open>ncols\<close> elements.\<close>

definition rectangular :: "'a ndarray \<Rightarrow> bool" where
  "rectangular a \<longleftrightarrow> list_all (\<lambda>row. length row = ncols a) (rows a)"

definition map_ndarray :: "('a \<Rightarrow> 'b) \<Rightarrow> 'a ndarray \<Rightarrow> 'b ndarray" where
  "map_ndarray g a = \<lparr>rows = map (map g) (rows a), ncols = ncols a\<rparr>"

section \<open>ply\_to\_splat.py: writing the records\<close>

text \<open>
  \<^verbatim>\<open>struct.pack\<close>: the format \<^verbatim>\<open>'fff'\<close> takes exactly three numbers and gives four bytes
  for each; the encoding of one number as a \<^verbatim>\<open>float32\<close> is the parameter \<open>pack_f\<close>.
  \<^verbatim>\<open>'B'\<close> takes an integer from 0 to 255, \<^verbatim>\<open>'b'\<close> one from -128 to 127 (stored in two's
  complement); anything else raises \<^verbatim>\<open>struct.error\<close>. \<^verbatim>\<open>int(x)\<close> of a float truncates
  toward zero.
\<close>

fun f32_bytes :: "float32 \<Rightarrow> string" where
  "f32_bytes (F32 a b c d) = [a, b, c, d]"

definition pack_fff :: "(real \<Rightarrow> float32) \<Rightarrow> real list \<Rightarrow> py_error + string" where
  "pack_fff pack_f v =
     (if length v = 3 then Inr (concat (map (\<lambda>x. f32_bytes (pack_f x)) v))
      else Inl StructError)"

definition pack_B :: "int \<Rightarrow> py_error + char" where
  "pack_B v = (if 0 \<le> v \<and> v \<le> 255 then Inr (char_of v) else Inl StructError)"

definition pack_b :: "int \<Rightarrow> py_error + char" where
  "pack_b v = (if - 128 \<le> v \<and> v \<le> 127 then Inr (char_of (v mod 256)) else Inl StructError)"

definition pack4 :: "(int \<Rightarrow> py_error + char) \<Rightarrow> int \<Rightarrow> int \<Rightarrow> int \<Rightarrow> int \<Rightarrow> py_error + string" where
  "pack4 pk a b c d =
     bind_err (pk a) (\<lambda>a'. bind_err (pk b) (\<lambda>b'. bind_err (pk c) (\<lambda>c'.
     bind_err (pk d) (\<lambda>d'. Inr [a', b', c', d']))))"

definition py_trunc :: "real \<Rightarrow> int" where
  "py_trunc x = (if 0 \<le> x then \<lfloor>x\<rfloor> else \<lceil>x\<rceil>)"

definition getitem :: "'a list \<Rightarrow> nat \<Rightarrow> py_error + 'a" where
  "getitem xs i = (if i < length xs then Inr (xs ! i) else Inl IndexError)"

definition getitem2 :: "'a list list \<Rightarrow> nat \<Rightarrow> nat \<Rightarrow> py_error + 'a" where
  "getitem2 xs i j = bind_err (getitem xs i) (\<lambda>row. getitem row j)"

text \<open>
  The body of the loop of lines 115 to 135, for one \<open>i\<close>: the bytes of the four writes,
  or the first exception.
\<close>

definition splat_record :: "(real \<Rightarrow> float32) \<Rightarrow> splat_arrays \<Rightarrow> nat \<Rightarrow> py_error + string" where
  "splat_record pack_f a i =
     bind_err (getitem (positions a) i) (\<lambda>p.
     bind_err (pack_fff pack_f p) (\<lambda>w1.
     bind_err (getitem (scale a) i) (\<lambda>s.
     bind_err (pack_fff pack_f s) (\<lambda>w2.
     bind_err (getitem2 (colors a) i 0) (\<lambda>c0.
     bind_err (getitem2 (colors a) i 1) (\<lambda>c1.
     bind_err (getitem2 (colors a) i 2) (\<lambda>c2.
     bind_err (getitem (opacity a) i) (\<lambda>op.
     bind_err (pack4 pack_B (py_trunc (c0 * 255)) (py_trunc (c1 * 255))
                 (py_trunc (c2 * 255)) (py_trunc (op * 255))) (\<lambda>w3.
     bind_err (getitem2 (rot a) i 0) (\<lambda>q0.
     bind_err (getitem2 (rot a) i 1) (\<lambda>q1.
     bind_err (getitem2 (rot a) i 2) (\<lambda>q2.
     bind_err (getitem2 (rot a) i 3) (\<lambda>q3.
     bind_err (pack4 pack_b (py_trunc (q0 * 127)) (py_trunc (q1 * 127))
                 (py_trunc (q2 * 127)) (py_trunc (q3 * 127))) (\<lambda>w4.
     Inr (w1 @ w2 @ w3 @ w4)))))))))))))))"

fun write_loop :: "(real \<Rightarrow> float32) \<Rightarrow> splat_arrays \<Rightarrow> nat list \<Rightarrow> string \<Rightarrow> py_error + string" where
  "write_loop pack_f a [] out = Inr out"
| "write_loop pack_f a (i # is) out =
     bind_err (splat_record pack_f a i) (\<lambda>bs. write_loop pack_f a is (out @ bs))"

definition write_splat :: "(real \<Rightarrow> float32) \<Rightarrow> splat_arrays \<Rightarrow> nat \<Rightarrow> py_error + string" where
  "write_splat pack_f a vertex_count = write_loop pack_f a [0..<vertex_count] []"

text \<open>
  From the payload to the bytes of the output file: read the vertex data, take each
  element's value (the parameter \<open>f32_value\<close>), extract the properties, write the records.
\<close>

definition convert_payload ::
  "machine \<Rightarrow> (float32 \<Rightarrow> real) \<Rightarrow> (real \<Rightarrow> float32) \<Rightarrow> string \<Rightarrow> nat \<Rightarrow> nat
     \<Rightarrow> py_error + string" where
  "convert_payload m f32_value pack_f content header_len vertex_count =
     bind_err (read_vertex_data m content header_len vertex_count) (\<lambda>vertex_data.
       write_splat pack_f
         (extract_properties (map_ndarray f32_value vertex_data) vertex_count) vertex_count)"

text \<open>
  The layout of one record as the format describes it: position, scale, colour and
  opacity as four unsigned bytes, rotation as four signed bytes.
\<close>

definition compact_record ::
  "(real \<Rightarrow> float32) \<Rightarrow> real list \<Rightarrow> real list \<Rightarrow> real list \<Rightarrow> real \<Rightarrow> real list \<Rightarrow> string" where
  "compact_record pack_f p s c op q =
     concat (map (\<lambda>x. f32_bytes (pack_f x)) p)
     @ concat (map (\<lambda>x. f32_bytes (pack_f x)) s)
     @ map (\<lambda>x. char_of (py_trunc (x * 255))) (c @ [op])
     @ map (\<lambda>x. char_of (py_trunc (x * 127) mod 256)) q"

text \<open>Arrays that hold \<open>n\<close> decoded splats, with the ranges of the data model.\<close>

definition decoded_splats :: "splat_arrays \<Rightarrow> nat \<Rightarrow> bool" where
  "decoded_splats a n \<longleftrightarrow>
     length (positions a) = n \<and> list_all (\<lambda>p. length p = 3) (positions a) \<and>
     length (scale a) = n \<and> list_all (\<lambda>s. length s = 3) (scale a) \<and>
     length (colors a) = n \<and>
     list_all (\<lambda>c. length c = 3 \<and> list_all (\<lambda>x. 0 \<le> x \<and> x \<le> 1) c) (colors a) \<and>
     length (opacity a) = n \<and> list_all (\<lambda>x. 0 \<le> x \<and> x \<le> 1) (opacity a) \<and>
     length (rot a) = n \<and>
     list_all (\<lambda>q. length q = 4 \<and> list_all (\<lambda>x. - 1 \<le> x \<and> x \<le> 1) q) (rot a)"

section \<open>main.py: volume and growth\<close>

text \<open>
  A PLY file as \<^verbatim>\<open>plyfile\<close> presents it: elements by name, each a table of columns by
  property name. The three libraries are parameters: reading the file, Open3D's
  statistical outlier removal and SciPy's convex hull each return a result or raise.
\<close>

type_synonym point = "real \<times> real \<times> real"
type_synonym ply_element = "string \<Rightarrow> real list option"
type_synonym ply_data = "string \<Rightarrow> ply_element option"

record 'p volume_deps =
  HAS_VOLUME_DEPS :: bool
  PlyData_read :: "'p \<Rightarrow> py_error + ply_data"
  remove_statistical_outlier :: "point list \<Rightarrow> py_error + point list"
  ConvexHull_volume :: "point list \<Rightarrow> py_error + real"

definition lookup :: "(string \<Rightarrow> 'a option) \<Rightarrow> string \<Rightarrow> py_error + 'a" where
  "lookup m k = (case m k of None \<Rightarrow> Inl (KeyError k) | Some v \<Rightarrow> Inr v)"

definition np_stack3 :: "real list \<Rightarrow> real list \<Rightarrow> real list \<Rightarrow> py_error + point list" where
  "np_stack3 x y z =
     (if length y = length x \<and> length z = length x then Inr (zip x (zip y z))
      else Inl (ValueError ''all input arrays must have the same shape''))"

definition mask_index :: "'a list \<Rightarrow> bool list \<Rightarrow> py_error + 'a list" where
  "mask_index xs flags =
     (if length flags = length xs then Inr (map fst (filter snd (zip xs flags)))
      else Inl IndexError)"

text \<open>
  Lines 269 to 282: the opacity that the filter compares with the threshold.
  \<^verbatim>\<open>
  if 'opacity' in plydata['vertex']:
      opacity = plydata['vertex']['opacity']
      if (opacity < 0).any():
           opacity = 1 / (1 + np.exp(-opacity))
  elif 'alpha' in plydata['vertex']:
      opacity = plydata['vertex']['alpha']
  else:
      opacity = np.ones(len(xyz))
  \<close>
\<close>

definition select_opacity :: "ply_element \<Rightarrow> nat \<Rightarrow> real list" where
  "select_opacity vertex n =
     (case vertex ''opacity'' of
        Some raw \<Rightarrow>
          if list_ex (\<lambda>v. v < 0) raw then map (\<lambda>v. 1 / (1 + exp (- v))) raw
          else raw
      | None \<Rightarrow>
          (case vertex ''alpha'' of
             Some alpha \<Rightarrow> alpha
           | None \<Rightarrow> replicate n 1))"

text \<open>Lines 291 to 301: the cleaned points, or the solid points when Open3D raises.\<close>

definition clean :: "'p volume_deps \<Rightarrow> point list \<Rightarrow> point list" where
  "clean deps solid_points =
     (case remove_statistical_outlier deps solid_points of
        Inr cl \<Rightarrow> cl
      | Inl e \<Rightarrow> solid_points)"

text \<open>Lines 303 to 313: the volume of the hull of the cleaned points.\<close>

definition hull_volume :: "'p volume_deps \<Rightarrow> point list \<Rightarrow> real" where
  "hull_volume deps clean_points =
     (if length clean_points < 4 then 0
      else (case ConvexHull_volume deps clean_points of
              Inr volume \<Rightarrow> volume
            | Inl e \<Rightarrow> 0))"

text \<open>
  Lines 264 to 286: the positions, the opacity and the points that pass the filter.
\<close>

definition load_solid_points :: "ply_data \<Rightarrow> real \<Rightarrow> py_error + point list" where
  "load_solid_points plydata opacity_threshold =
     bind_err (lookup plydata ''vertex'') (\<lambda>vertex.
     bind_err (lookup vertex ''x'') (\<lambda>x.
     bind_err (lookup vertex ''y'') (\<lambda>y.
     bind_err (lookup vertex ''z'') (\<lambda>z.
     bind_err (np_stack3 x y z) (\<lambda>xyz.
     mask_index xyz
       (map (\<lambda>v. v > opacity_threshold) (select_opacity vertex (length xyz))))))))"

definition calculate_splat_volume :: "'p volume_deps \<Rightarrow> 'p \<Rightarrow> real \<Rightarrow> py_error + real" where
  "calculate_splat_volume deps ply_path opacity_threshold =
     (if \<not> HAS_VOLUME_DEPS deps
      then Inl (ImportError ''Missing dependencies: plyfile, scipy, open3d'')
      else
        (case PlyData_read deps ply_path of
           Inl e \<Rightarrow> Inr 0
         | Inr plydata \<Rightarrow>
             bind_err (load_solid_points plydata opacity_threshold) (\<lambda>solid_points.
               if length solid_points < 4 then Inr 0
               else Inr (hull_volume deps (clean deps solid_points)))))"

text \<open>
  A scene file of the expected family: a \<^verbatim>\<open>vertex\<close> element with the columns \<^verbatim>\<open>x\<close>,
  \<^verbatim>\<open>y\<close> and \<^verbatim>\<open>z\<close>, and all the columns that are read of one length (as the columns of
  one element are).
\<close>

definition splat_file_ok :: "ply_data \<Rightarrow> bool" where
  "splat_file_ok plydata =
     (case plydata ''vertex'' of
        None \<Rightarrow> False
      | Some vertex \<Rightarrow>
          (case (vertex ''x'', vertex ''y'', vertex ''z'') of
             (Some x, Some y, Some z) \<Rightarrow>
               length y = length x \<and> length z = length x \<and>
               (case vertex ''opacity'' of
                  Some raw \<Rightarrow> length raw = length x
                | None \<Rightarrow>
                    (case vertex ''alpha'' of
                       Some alpha \<Rightarrow> length alpha = length x
                     | None \<Rightarrow> True))
           | _ \<Rightarrow> False))"

text \<open>
  A Python \<^verbatim>\<open>float\<close>: a finite number, an infinity or NaN. An operation on finite
  numbers gives the exact result when that lies in the range of a float and an
  infinity when it lies beyond: \<open>float_overflow\<close> is the least magnitude that rounds
  to infinity. (Rounding within the range and the sign of zero are not modelled.)
\<close>

datatype pyfloat = Finite real | PosInf | NegInf | NaN

definition float_overflow :: real where
  "float_overflow = 2 ^ 1024 - 2 ^ 970"

definition fl :: "real \<Rightarrow> pyfloat" where
  "fl x = (if float_overflow \<le> x then PosInf
           else if x \<le> - float_overflow then NegInf
           else Finite x)"

fun float_gt :: "pyfloat \<Rightarrow> pyfloat \<Rightarrow> bool" where
  "float_gt (Finite x) (Finite y) = (y < x)"
| "float_gt NaN b = False"
| "float_gt a NaN = False"
| "float_gt PosInf PosInf = False"
| "float_gt PosInf b = True"
| "float_gt NegInf b = False"
| "float_gt (Finite x) PosInf = False"
| "float_gt (Finite x) NegInf = True"

fun float_sub :: "pyfloat \<Rightarrow> pyfloat \<Rightarrow> pyfloat" where
  "float_sub (Finite x) (Finite y) = fl (x - y)"
| "float_sub NaN b = NaN"
| "float_sub a NaN = NaN"
| "float_sub PosInf PosInf = NaN"
| "float_sub PosInf b = PosInf"
| "float_sub NegInf NegInf = NaN"
| "float_sub NegInf b = NegInf"
| "float_sub (Finite x) PosInf = NegInf"
| "float_sub (Finite x) NegInf = PosInf"

fun float_mul :: "pyfloat \<Rightarrow> pyfloat \<Rightarrow> pyfloat" where
  "float_mul (Finite x) (Finite y) = fl (x * y)"
| "float_mul NaN b = NaN"
| "float_mul a NaN = NaN"
| "float_mul PosInf (Finite y) = (if y = 0 then NaN else if 0 < y then PosInf else NegInf)"
| "float_mul NegInf (Finite y) = (if y = 0 then NaN else if 0 < y then NegInf else PosInf)"
| "float_mul (Finite x) PosInf = (if x = 0 then NaN else if 0 < x then PosInf else NegInf)"
| "float_mul (Finite x) NegInf = (if x = 0 then NaN else if 0 < x then NegInf else PosInf)"
| "float_mul PosInf PosInf = PosInf"
| "float_mul PosInf NegInf = NegInf"
| "float_mul NegInf PosInf = NegInf"
| "float_mul NegInf NegInf = PosInf"

text \<open>\<^verbatim>\<open>a / b\<close> on floats raises \<open>ZeroDivisionError\<close> on a zero divisor, whatever \<open>a\<close> is.\<close>

fun float_truediv :: "pyfloat \<Rightarrow> pyfloat \<Rightarrow> py_error + pyfloat" where
  "float_truediv (Finite x) (Finite y) = (if y = 0 then Inl ZeroDivisionError else Inr (fl (x / y)))"
| "float_truediv a (Finite y) =
     (if y = 0 then Inl ZeroDivisionError
      else Inr (case a of
                  PosInf \<Rightarrow> (if 0 < y then PosInf else NegInf)
                | NegInf \<Rightarrow> (if 0 < y then NegInf else PosInf)
                | other \<Rightarrow> NaN))"
| "float_truediv NaN b = Inr NaN"
| "float_truediv a NaN = Inr NaN"
| "float_truediv (Finite x) b = Inr (Finite 0)"
| "float_truediv a b = Inr NaN"

text \<open>
  Lines 337 to 350 of \<^verbatim>\<open>analyze_growth\<close> (the checks of the request before them are
  not part of the model):
  \<^verbatim>\<open>
  growth = 0.0
  if vol1 > 0:
      growth = ((vol2 - vol1) / vol1) * 100
  \<close>
\<close>

definition growth :: "pyfloat \<Rightarrow> pyfloat \<Rightarrow> py_error + pyfloat" where
  "growth vol1 vol2 =
     (if float_gt vol1 (Finite 0)
      then bind_err (float_truediv (float_sub vol2 vol1) vol1)
             (\<lambda>q. Inr (float_mul q (Finite 100)))
      else Inr (Finite 0))"

record growth_result =
  volume1 :: real
  volume2 :: real
  growth_percentage :: pyfloat

definition analyze_growth :: "'p volume_deps \<Rightarrow> 'p \<Rightarrow> 'p \<Rightarrow> real \<Rightarrow> py_error + growth_result" where
  "analyze_growth deps path1 path2 threshold =
     bind_err (calculate_splat_volume deps path1 threshold) (\<lambda>vol1.
     bind_err (calculate_splat_volume deps path2 threshold) (\<lambda>vol2.
     bind_err (growth (Finite vol1) (Finite vol2)) (\<lambda>g.
     Inr \<lparr>volume1 = vol1, volume2 = vol2, growth_percentage = g\<rparr>)))"

text \<open>
  The layout that reading is compared with: \<open>vertex_count\<close> rows of \<open>w\<close> elements
  each, taken from the start of the payload (the bytes after the header).
\<close>

definition rows_of_width :: "string \<Rightarrow> nat \<Rightarrow> nat \<Rightarrow> nat \<Rightarrow> float32 ndarray" where
  "rows_of_width content header_len vertex_count w =
     \<lparr>rows = map (\<lambda>i. take w (drop (i * w)
               (f32_cells (take (vertex_count * w * 4) (drop header_len content)))))
             [0..<vertex_count],
      ncols = w\<rparr>"

text \<open>A scene of four points, the corners of a tetrahedron, without an opacity column.\<close>

definition tetra :: ply_data where
  "tetra = [''vertex'' \<mapsto>
     [''x'' \<mapsto> [0, 1, 0, 0], ''y'' \<mapsto> [0, 0, 1, 0], ''z'' \<mapsto> [0, 0, 0, 1]]]"

section \<open>The header loop\<close>

lemma file_lines_Nil: "file_lines [] = []"
  by simp

lemma file_lines_Cons:
  "f \<noteq> [] \<Longrightarrow> file_lines f = fst (readline f) # file_lines (snd (readline f))"
  by simp

declare file_lines.simps [simp del]

lemma read_header_Some_marker:
  assumes ret: "read_header h0 f0 = Some r0"
  shows "\<exists>l \<in> set (file_lines f0). bytes_in ''end_header'' l"
proof (rule read_header.raw_induct
    [where P = "\<lambda>h f r. \<exists>l \<in> set (file_lines f). bytes_in ''end_header'' l", OF _ ret])
  fix rh :: "string \<Rightarrow> string \<Rightarrow> (string \<times> string) option"
  fix header f :: string and r :: "string \<times> string"
  assume IH: "\<And>h g y. rh h g = Some y \<Longrightarrow> \<exists>l \<in> set (file_lines g). bytes_in ''end_header'' l"
  assume eq: "(case readline f of (line, f') \<Rightarrow>
        if bytes_in ''end_header'' line then Some (header @ line, f')
        else rh (header @ line) f') = Some r"
  obtain line f' where rl: "readline f = (line, f')" by (cases "readline f")
  show "\<exists>l \<in> set (file_lines f). bytes_in ''end_header'' l"
  proof (cases "bytes_in ''end_header'' line")
    case True
    then have "f \<noteq> []" using rl by auto
    then show ?thesis using True rl by (auto simp: file_lines_Cons)
  next
    case False
    then have "rh (header @ line) f' = Some r" using eq rl by simp
    then have ex: "\<exists>l \<in> set (file_lines f'). bytes_in ''end_header'' l" by (rule IH)
    then have "f' \<noteq> []" by (auto simp: file_lines_Nil)
    then have "f \<noteq> []" using rl by auto
    then show ?thesis using ex rl by (auto simp: file_lines_Cons)
  qed
qed

lemma read_header_marker_Some:
  "\<exists>l \<in> set (file_lines f). bytes_in ''end_header'' l \<Longrightarrow> \<exists>r. read_header h f = Some r"
proof (induction f arbitrary: h rule: file_lines.induct)
  case (1 f)
  then have ne: "f \<noteq> []" by (auto simp: file_lines_Nil)
  obtain line f' where rl: "readline f = (line, f')" by (cases "readline f")
  show ?case
  proof (cases "bytes_in ''end_header'' line")
    case True
    then show ?thesis using rl by (subst read_header.simps) simp
  next
    case False
    then have "\<exists>l \<in> set (file_lines f'). bytes_in ''end_header'' l"
      using 1(2) ne rl by (auto simp: file_lines_Cons)
    then have "\<exists>r. read_header (h @ line) f' = Some r"
      using 1(1) [OF ne, of "h @ line"] rl by simp
    then show ?thesis using rl False by (subst read_header.simps) simp
  qed
qed

text \<open>
  C10. On a file none of whose lines contains \<^verbatim>\<open>end_header\<close> the header loop never
  exits, so the conversion does not return; the loop exits exactly when some line of
  the file contains the marker.
\<close>

theorem header_loop_diverges_iff:
  "read_header [] f = None \<longleftrightarrow> \<not> (\<exists>l \<in> set (file_lines f). bytes_in ''end_header'' l)"
  using read_header_Some_marker [of "[]" f] read_header_marker_Some [of f "[]"]
  by (cases "read_header [] f") auto

theorem header_loop_diverges_iff_witness:
  "read_header [] (''ply'' @ [CHR 0x0A] @ ''element vertex 1'') = None"
  using header_loop_diverges_iff [of "''ply'' @ [CHR 0x0A] @ ''element vertex 1''"]
  by (simp add: file_lines.simps)

section \<open>The vertex count\<close>

lemma scan_lines_find:
  "scan_lines ls =
     (case find (\<lambda>line. startswith line ''element vertex'') ls of
        None \<Rightarrow> Inr 0
      | Some l \<Rightarrow> bind_err (last_token l) py_int)"
  by (induction ls) simp_all

lemma py_int_error: "py_int t = Inl e \<Longrightarrow> e = invalid_literal"
  by (auto simp: py_int_def split: list.splits if_splits option.splits)

lemma token_int_error:
  "bind_err (last_token l) py_int = Inl e \<Longrightarrow> e = invalid_literal \<or> e = IndexError"
  by (auto simp: bind_err_def last_token_def dest: py_int_error split: sum.splits list.splits)

lemma no_vertex_count_distinct:
  "no_vertex_count \<noteq> invalid_literal" "no_vertex_count \<noteq> IndexError"
  by (simp_all add: no_vertex_count_def invalid_literal_def)

text \<open>
  C8, as the code has it. The scan takes the first line that begins with
  \<^verbatim>\<open>element vertex\<close> and reads its last whitespace-separated token with \<^verbatim>\<open>int\<close>. It raises
  "Could not determine vertex count" exactly when there is no such line or the token
  reads as 0, and it returns \<open>n\<close> exactly when the token reads as \<open>n\<close> and \<open>n\<close> is not 0.
  An accepted count is therefore not 0; it may be negative.
\<close>

theorem parse_vertex_count_cases:
  "(parse_vertex_count h = Inl no_vertex_count \<longleftrightarrow>
      vertex_line h = None \<or>
      (\<exists>l. vertex_line h = Some l \<and> bind_err (last_token l) py_int = Inr 0)) \<and>
   (parse_vertex_count h = Inr n \<longleftrightarrow>
      n \<noteq> 0 \<and> (\<exists>l. vertex_line h = Some l \<and> bind_err (last_token l) py_int = Inr n))"
proof (cases "vertex_line h")
  case None
  then show ?thesis
    by (simp add: parse_vertex_count_def scan_lines_find vertex_line_def bind_err_def)
next
  case (Some l)
  show ?thesis
  proof (cases "bind_err (last_token l) py_int")
    case (Inl e)
    then have "e \<noteq> no_vertex_count"
      using token_int_error [OF Inl] no_vertex_count_distinct by auto
    then show ?thesis using Some Inl
      by (simp add: parse_vertex_count_def scan_lines_find vertex_line_def bind_err_def)
  next
    case (Inr k)
    then show ?thesis using Some
      by (auto simp: parse_vertex_count_def scan_lines_find vertex_line_def bind_err_def)
  qed
qed

theorem parse_vertex_count_cases_witness:
  "parse_vertex_count
     (''ply'' @ [CHR 0x0A] @ ''element vertex 3'' @ [CHR 0x0A] @ ''end_header'' @ [CHR 0x0A])
   = Inr 3"
  using parse_vertex_count_cases
    [of "''ply'' @ [CHR 0x0A] @ ''element vertex 3'' @ [CHR 0x0A] @ ''end_header'' @ [CHR 0x0A]" 3]
  by (simp add: vertex_line_def last_token_def str_split_def is_space_def py_int_def
      is_digit_def digit_val_def bind_err_def)

text \<open>
  A header that declares \<open>-5\<close> vertices is accepted with the count \<open>-5\<close>: the check
  compares the count with 0 only.
\<close>

theorem negative_vertex_count_accepted:
  "parse_vertex_count (''element vertex -5'' @ [CHR 0x0A] @ ''end_header'' @ [CHR 0x0A])
     = Inr (- 5)
   \<and> \<not> (0 < (- 5 :: int))"
  by (simp add: parse_vertex_count_def last_token_def str_split_def is_space_def py_int_def
      is_digit_def digit_val_def bind_err_def)

section \<open>Growth\<close>








text \<open>The percentage that \<open>analyze_growth\<close> reports is \<open>growth\<close> of the two volumes it reports.\<close>

lemma analyze_growth_result:
  "analyze_growth deps path1 path2 threshold = Inr r \<Longrightarrow>
   growth (Finite (volume1 r)) (Finite (volume2 r)) = Inr (growth_percentage r)"
  by (auto simp: analyze_growth_def bind_err_def split: sum.splits)

section \<open>The vertex data\<close>

lemma length_f32_cells: "length (f32_cells bs) = length bs div 4"
  by (induction bs rule: f32_cells.induct) simp_all

lemma np_frombuffer_whole:
  "length bs mod 4 = 0 \<Longrightarrow> np_frombuffer bs = Inr (f32_cells bs)"
proof (induction bs rule: np_frombuffer.induct)
  case 1
  then show ?case by simp
next
  case (2 a b c d bs)
  then show ?case by (simp add: bind_err_def)
qed simp_all

lemma np_frombuffer_part:
  "length bs mod 4 \<noteq> 0 \<Longrightarrow> \<exists>msg. np_frombuffer bs = Inl (ValueError msg)"
proof (induction bs rule: np_frombuffer.induct)
  case (2 a b c d bs)
  then show ?case by (auto simp: bind_err_def)
qed simp_all

lemma read_at_ok: "can_read m n \<Longrightarrow> read_at m content pos n = Inr (take n (drop pos content))"
  by (simp add: read_at_def can_read_def)

lemma read_standard_too_large:
  "max_index m < vertex_count * 62 * 4 \<Longrightarrow>
     read_standard m content header_len vertex_count = Inl OverflowError"
  "vertex_count * 62 * 4 \<le> max_index m \<Longrightarrow> max_alloc m < vertex_count * 62 * 4 \<Longrightarrow>
     read_standard m content header_len vertex_count = Inl MemoryError"
  by (simp_all add: read_standard_def read_at_def bind_err_def)

lemma read_standard_ok:
  assumes "can_read m (vertex_count * 62 * 4)"
    and "vertex_count * 62 * 4 \<le> length content - header_len"
  shows "read_standard m content header_len vertex_count
           = Inr (rows_of_width content header_len vertex_count 62)"
proof -
  let ?bs = "take (vertex_count * 62 * 4) (drop header_len content)"
  have rd: "read_at m content header_len (vertex_count * 62 * 4) = Inr ?bs"
    using assms(1) by (rule read_at_ok)
  have len: "length ?bs = vertex_count * 62 * 4" using assms(2) by simp
  then have "length ?bs mod 4 = 0" by simp
  then have fb: "np_frombuffer ?bs = Inr (f32_cells ?bs)" by (rule np_frombuffer_whole)
  have cells: "length (f32_cells ?bs) = vertex_count * 62"
    using len by (simp add: length_f32_cells)
  have "read_standard m content header_len vertex_count = np_reshape (f32_cells ?bs) vertex_count 62"
    by (simp only: read_standard_def rd fb bind_err_def sum.case)
  also have "\<dots> = Inr (rows_of_width content header_len vertex_count 62)"
    using cells by (simp add: np_reshape_def rows_of_width_def)
  finally show ?thesis .
qed

lemma read_standard_short:
  assumes "can_read m (vertex_count * 62 * 4)"
    and "length content - header_len < vertex_count * 62 * 4"
  shows "\<exists>msg. read_standard m content header_len vertex_count = Inl (ValueError msg)"
proof -
  let ?bs = "take (vertex_count * 62 * 4) (drop header_len content)"
  have rd: "read_at m content header_len (vertex_count * 62 * 4) = Inr ?bs"
    using assms(1) by (rule read_at_ok)
  have len: "length ?bs = length content - header_len" using assms(2) by simp
  show ?thesis
  proof (cases "length ?bs mod 4 = 0")
    case True
    then have fb: "np_frombuffer ?bs = Inr (f32_cells ?bs)" by (rule np_frombuffer_whole)
    have "length (f32_cells ?bs) < vertex_count * 62"
      using len assms(2) by (simp add: length_f32_cells)
    then have "np_reshape (f32_cells ?bs) vertex_count 62 = Inl (ValueError ''cannot reshape array'')"
      by (simp add: np_reshape_def)
    then show ?thesis
      by (simp only: read_standard_def rd fb bind_err_def sum.case) simp
  next
    case False
    then obtain msg where "np_frombuffer ?bs = Inl (ValueError msg)"
      using np_frombuffer_part by blast
    then show ?thesis by (simp only: read_standard_def rd bind_err_def sum.case) simp
  qed
qed

lemma read_fallback_ok:
  assumes "0 < vertex_count"
    and "length content - header_len \<le> max_index m"
    and "length content - header_len \<le> max_alloc m"
  shows "read_fallback m content header_len vertex_count
           = Inr (rows_of_width content header_len vertex_count
                    ((length content - header_len) div (vertex_count * 4)))"
proof -
  let ?w = "(length content - header_len) div (vertex_count * 4)"
  let ?bs = "take (vertex_count * ?w * 4) (drop header_len content)"
  have e: "vertex_count * ?w * 4 = ?w * (vertex_count * 4)" by (simp only: ac_simps)
  have fits: "vertex_count * ?w * 4 \<le> length content - header_len"
    unfolding e by (rule div_times_less_eq_dividend)
  then have "can_read m (vertex_count * ?w * 4)"
    using assms(2,3) by (simp only: can_read_def) linarith
  then have rd: "read_at m content header_len (vertex_count * ?w * 4) = Inr ?bs"
    by (rule read_at_ok)
  have rest: "read_rest m content header_len = Inr (drop header_len content)"
    using assms(3) by (simp add: read_rest_def)
  have len: "length ?bs = vertex_count * ?w * 4"
    using fits by simp
  then have "length ?bs mod 4 = 0" by simp
  then have fb: "np_frombuffer ?bs = Inr (f32_cells ?bs)" by (rule np_frombuffer_whole)
  have cells: "length (f32_cells ?bs) = vertex_count * ?w"
    using len by (simp add: length_f32_cells)
  have nz: "vertex_count * 4 \<noteq> 0" using assms(1) by simp
  have "read_fallback m content header_len vertex_count = np_reshape (f32_cells ?bs) vertex_count ?w"
    by (simp only: read_fallback_def rest bind_err_def sum.case nz if_False Let_def length_drop
        rd fb)
  also have "\<dots> = Inr (rows_of_width content header_len vertex_count ?w)"
    using cells unfolding np_reshape_def rows_of_width_def by simp
  finally show ?thesis .
qed

lemma read_vertex_data_layout:
  assumes "0 < vertex_count" and "can_read m (vertex_count * 62 * 4)"
  shows "read_vertex_data m content header_len vertex_count
           = Inr (rows_of_width content header_len vertex_count
                    (if vertex_count * 62 * 4 \<le> length content - header_len then 62
                     else (length content - header_len) div (vertex_count * 4)))"
proof (cases "vertex_count * 62 * 4 \<le> length content - header_len")
  case True
  then show ?thesis using assms(2) by (simp add: read_vertex_data_def read_standard_ok)
next
  case False
  then have short: "length content - header_len < vertex_count * 62 * 4" by simp
  then obtain msg where "read_standard m content header_len vertex_count = Inl (ValueError msg)"
    using read_standard_short [OF assms(2)] by blast
  moreover have "length content - header_len \<le> max_index m"
    "length content - header_len \<le> max_alloc m"
    using short assms(2) by (simp_all only: can_read_def) linarith+
  ultimately show ?thesis using False assms(1)
    by (simp add: read_vertex_data_def read_fallback_ok)
qed

lemma read_vertex_data_too_large:
  "max_index m < vertex_count * 62 * 4 \<Longrightarrow>
     read_vertex_data m content header_len vertex_count = Inl OverflowError"
  "vertex_count * 62 * 4 \<le> max_index m \<Longrightarrow> max_alloc m < vertex_count * 62 * 4 \<Longrightarrow>
     read_vertex_data m content header_len vertex_count = Inl MemoryError"
  by (simp_all add: read_vertex_data_def read_standard_too_large)

text \<open>
  C1, as the code has it. For a positive vertex count whose standard read of
  \<open>vertex_count * 62 * 4\<close> bytes the machine can allocate: a payload of at least that
  many bytes is read as \<open>vertex_count\<close> rows of 62 elements from its first
  \<open>vertex_count * 62 * 4\<close> bytes, whatever follows them; only a shorter payload takes
  the fallback, which infers \<open>payload length div (vertex_count * 4)\<close> elements per row
  and reads that many rows from the start of the payload. A count too large for the
  standard read raises \<open>OverflowError\<close> or \<open>MemoryError\<close>, which the fallback does not
  catch.
\<close>

theorem read_vertex_data_width:
  assumes "0 < vertex_count"
  shows "(can_read m (vertex_count * 62 * 4) \<and>
          vertex_count * 62 * 4 \<le> length content - header_len \<longrightarrow>
            read_vertex_data m content header_len vertex_count
              = Inr (rows_of_width content header_len vertex_count 62)) \<and>
         (can_read m (vertex_count * 62 * 4) \<and>
          length content - header_len < vertex_count * 62 * 4 \<longrightarrow>
            read_vertex_data m content header_len vertex_count
              = Inr (rows_of_width content header_len vertex_count
                       ((length content - header_len) div (vertex_count * 4)))) \<and>
         (max_index m < vertex_count * 62 * 4 \<longrightarrow>
            read_vertex_data m content header_len vertex_count = Inl OverflowError) \<and>
         (vertex_count * 62 * 4 \<le> max_index m \<and> max_alloc m < vertex_count * 62 * 4 \<longrightarrow>
            read_vertex_data m content header_len vertex_count = Inl MemoryError)"
  using read_vertex_data_layout
      [OF assms, where m = m and content = content and header_len = header_len]
    read_vertex_data_too_large
      [where m = m and vertex_count = vertex_count and content = content
         and header_len = header_len]
  by simp

lemma zeros_36: "rows_of_width (replicate 36 (CHR 0x00)) 0 (Suc 0) 9
    = \<lparr>rows = [replicate 9 (F32 (CHR 0x00) (CHR 0x00) (CHR 0x00) (CHR 0x00))], ncols = 9\<rparr>"
  by code_simp

theorem read_vertex_data_width_witness:
  "read_vertex_data machine64 (replicate 36 (CHR 0x00)) 0 1
    = Inr \<lparr>rows = [replicate 9 (F32 (CHR 0x00) (CHR 0x00) (CHR 0x00) (CHR 0x00))], ncols = 9\<rparr> \<and>
   read_vertex_data machine64 (replicate 36 (CHR 0x00)) 0 100000000000000000 = Inl OverflowError \<and>
   read_vertex_data machine64 (replicate 36 (CHR 0x00)) 0 10000000000000 = Inl MemoryError"
  using read_vertex_data_width
      [where vertex_count = 1 and m = machine64 and content = "replicate 36 (CHR 0x00)"
         and header_len = 0]
    read_vertex_data_width
      [where vertex_count = 100000000000000000 and m = machine64
         and content = "replicate 36 (CHR 0x00)" and header_len = 0]
    read_vertex_data_width
      [where vertex_count = 10000000000000 and m = machine64
         and content = "replicate 36 (CHR 0x00)" and header_len = 0]
  by (simp add: zeros_36 can_read_def machine64_def)

text \<open>
  One vertex with 63 elements (252 bytes, not \<open>62 * 4\<close>): the standard read succeeds
  on the first 248 bytes, so the row has 62 columns, not the 63 that the fallback
  would infer.
\<close>

lemma zeros_252: "rows_of_width (replicate 252 (CHR 0x00)) 0 (Suc 0) 62
    = \<lparr>rows = [replicate 62 (F32 (CHR 0x00) (CHR 0x00) (CHR 0x00) (CHR 0x00))], ncols = 62\<rparr>"
  by code_simp

lemma machine64_can_read_small: "n \<le> 1000 \<Longrightarrow> can_read machine64 n"
  by (simp add: can_read_def machine64_def)

theorem wide_payload_read_as_62:
  "(252::nat) \<noteq> 1 * 62 * 4 \<and> (252::nat) div (1 * 4) = 63 \<and>
   read_vertex_data machine64 (replicate 252 (CHR 0x00)) 0 1
    = Inr \<lparr>rows = [replicate 62 (F32 (CHR 0x00) (CHR 0x00) (CHR 0x00) (CHR 0x00))], ncols = 62\<rparr>"
  using read_vertex_data_layout
      [where vertex_count = 1 and m = machine64 and content = "replicate 252 (CHR 0x00)"
         and header_len = 0]
  by (simp add: zeros_252 machine64_can_read_small)

text \<open>
  One vertex with 8 bytes of payload: the fallback infers 2 elements per row and
  reading succeeds with a row of 2 columns.
\<close>

lemma zeros_8: "rows_of_width (replicate 8 (CHR 0x00)) 0 (Suc 0) 2
    = \<lparr>rows = [replicate 2 (F32 (CHR 0x00) (CHR 0x00) (CHR 0x00) (CHR 0x00))], ncols = 2\<rparr>"
  by code_simp

theorem two_columns_decoded:
  "(8::nat) div (1 * 4) = 2 \<and>
   read_vertex_data machine64 (replicate 8 (CHR 0x00)) 0 1
    = Inr \<lparr>rows = [replicate 2 (F32 (CHR 0x00) (CHR 0x00) (CHR 0x00) (CHR 0x00))], ncols = 2\<rparr>"
  using read_vertex_data_layout
      [where vertex_count = 1 and m = machine64 and content = "replicate 8 (CHR 0x00)"
         and header_len = 0]
  by (simp add: zeros_8 machine64_can_read_small)

lemma write_splat_short_position:
  assumes "0 < vertex_count" and "getitem (positions a) 0 = Inr p" and "length p \<noteq> 3"
  shows "write_splat pack_f a vertex_count = Inl StructError"
proof -
  have "splat_record pack_f a 0 = Inl StructError"
    using assms(2,3) by (simp add: splat_record_def bind_err_def pack_fff_def)
  moreover have "[0..<vertex_count] = 0 # [1..<vertex_count]"
    using assms(1) by (simp add: upt_conv_Cons)
  ultimately show ?thesis by (simp add: write_splat_def bind_err_def)
qed

lemma length_rows_of_width: "length (rows (rows_of_width content header_len vertex_count w)) = vertex_count"
  by (simp add: rows_of_width_def)

lemma ncols_rows_of_width: "ncols (rows_of_width content header_len vertex_count w) = w"
  by (simp add: rows_of_width_def)

lemma first_position_narrow:
  assumes "0 < vertex_count" and "w < 3"
  shows "\<exists>p. getitem (positions (extract_properties
            (map_ndarray f32_value (rows_of_width content header_len vertex_count w))
            vertex_count)) 0 = Inr p \<and> length p \<noteq> 3"
  using assms
  by (simp add: extract_properties_def col_slice_def map_ndarray_def rows_of_width_def
      getitem_def upt_conv_Cons)

text \<open>
  C2, as the code has it. When the inferred width is below 3 (for a positive vertex
  count whose standard read the machine can allocate) reading the vertex data raises
  nothing: it yields \<open>vertex_count\<close> rows of that width, which the payload always
  holds. The conversion raises only later, when the first position is packed for
  writing (\<^verbatim>\<open>struct.error\<close>).
\<close>

theorem narrow_rows_fail_in_writer:
  assumes "0 < vertex_count" and "can_read m (vertex_count * 62 * 4)"
    and "(length content - header_len) div (vertex_count * 4) < 3"
  shows "read_vertex_data m content header_len vertex_count
           = Inr (rows_of_width content header_len vertex_count
                    ((length content - header_len) div (vertex_count * 4))) \<and>
         vertex_count * ((length content - header_len) div (vertex_count * 4)) * 4
           \<le> length content - header_len \<and>
         convert_payload m f32_value pack_f content header_len vertex_count = Inl StructError"
proof -
  let ?L = "length content - header_len"
  let ?w = "?L div (vertex_count * 4)"
  let ?vd = "rows_of_width content header_len vertex_count ?w"
  have "?L < 3 * (vertex_count * 4)"
    using assms(1,3) by (simp add: div_less_iff_less_mult)
  then have short: "\<not> vertex_count * 62 * 4 \<le> ?L" by simp
  have rd: "read_vertex_data m content header_len vertex_count = Inr ?vd"
    using read_vertex_data_layout
        [OF assms(1,2), where content = content and header_len = header_len] short
    by (simp only: if_False)
  have e: "vertex_count * ?w * 4 = ?w * (vertex_count * 4)"
    by (simp only: ac_simps)
  have fits: "vertex_count * ?w * 4 \<le> ?L"
    unfolding e by (rule div_times_less_eq_dividend)
  obtain p where
    "getitem (positions (extract_properties (map_ndarray f32_value ?vd) vertex_count)) 0 = Inr p"
    "length p \<noteq> 3"
    using first_position_narrow
        [OF assms(1,3), where f32_value = f32_value and content = content
           and header_len = header_len]
    by blast
  then have "write_splat pack_f (extract_properties (map_ndarray f32_value ?vd) vertex_count)
               vertex_count = Inl StructError"
    by (rule write_splat_short_position [OF assms(1)])
  then have "convert_payload m f32_value pack_f content header_len vertex_count = Inl StructError"
    by (simp only: convert_payload_def rd bind_err_def sum.case)
  then show ?thesis using rd fits by simp
qed

theorem narrow_rows_fail_in_writer_witness:
  "read_vertex_data machine64 (replicate 8 (CHR 0x00)) 0 1
     = Inr \<lparr>rows = [replicate 2 (F32 (CHR 0x00) (CHR 0x00) (CHR 0x00) (CHR 0x00))], ncols = 2\<rparr> \<and>
   convert_payload machine64 (\<lambda>x. 0) (\<lambda>x. F32 (CHR 0x00) (CHR 0x00) (CHR 0x00) (CHR 0x00))
     (replicate 8 (CHR 0x00)) 0 1 = Inl StructError"
  using narrow_rows_fail_in_writer
      [where vertex_count = 1 and m = machine64 and content = "replicate 8 (CHR 0x00)"
         and header_len = 0 and f32_value = "\<lambda>x. 0"
         and pack_f = "\<lambda>x. F32 (CHR 0x00) (CHR 0x00) (CHR 0x00) (CHR 0x00)"]
  by (simp add: zeros_8 machine64_can_read_small)

section \<open>Opacity, volume and outliers\<close>

lemma logistic_bounds: "0 < logistic v \<and> logistic v < 1"
proof -
  have "0 < exp (- v)" by simp
  then show ?thesis by (simp add: logistic_def add_pos_pos)
qed




lemma load_solid_points_ok:
  "splat_file_ok plydata \<Longrightarrow> \<exists>solid. load_solid_points plydata thr = Inr solid"
  by (auto simp: splat_file_ok_def load_solid_points_def lookup_def bind_err_def np_stack3_def
      mask_index_def select_opacity_def split: option.splits)

text \<open>
  C3. With the libraries present and a scene file of the expected family, the volume
  computation returns a number, whatever the three libraries do: \<open>0\<close> when the file
  cannot be read, when fewer than 4 points pass the density filter, when fewer than 4
  remain after outlier removal, and when the hull construction raises.
\<close>

theorem volume_always_a_number:
  assumes "HAS_VOLUME_DEPS deps"
    and "\<And>plydata. PlyData_read deps path = Inr plydata \<Longrightarrow> splat_file_ok plydata"
  shows "\<exists>v. calculate_splat_volume deps path thr = Inr v \<and>
           (\<forall>plydata solid.
              PlyData_read deps path = Inr plydata \<longrightarrow>
              load_solid_points plydata thr = Inr solid \<longrightarrow>
                (length solid < 4 \<longrightarrow> v = 0) \<and>
                (length (clean deps solid) < 4 \<longrightarrow> v = 0) \<and>
                ((\<exists>e. ConvexHull_volume deps (clean deps solid) = Inl e) \<longrightarrow> v = 0))"
proof (cases "PlyData_read deps path")
  case (Inl e)
  then show ?thesis using assms(1) by (simp add: calculate_splat_volume_def)
next
  case (Inr plydata)
  then obtain solid where "load_solid_points plydata thr = Inr solid"
    using assms(2) load_solid_points_ok by blast
  then show ?thesis using Inr assms(1)
    by (auto simp: calculate_splat_volume_def bind_err_def hull_volume_def)
qed

lemma tetra_ok: "splat_file_ok tetra"
  by (simp add: splat_file_ok_def tetra_def)

lemma tetra_solid:
  "load_solid_points tetra 0.2 = Inr [(0, 0, 0), (1, 0, 0), (0, 1, 0), (0, 0, 1)]"
  by (simp add: load_solid_points_def tetra_def lookup_def bind_err_def np_stack3_def
      mask_index_def select_opacity_def)

theorem volume_always_a_number_witness:
  "calculate_splat_volume
     \<lparr>HAS_VOLUME_DEPS = True, PlyData_read = (\<lambda>p. Inr tetra),
      remove_statistical_outlier = (\<lambda>ps. Inr ps),
      ConvexHull_volume = (\<lambda>ps. Inl (LibraryError ''QhullError''))\<rparr> () 0.2 = Inr 0"
  using volume_always_a_number
    [of "\<lparr>HAS_VOLUME_DEPS = True, PlyData_read = (\<lambda>p. Inr tetra),
      remove_statistical_outlier = (\<lambda>ps. Inr ps),
      ConvexHull_volume = (\<lambda>ps. Inl (LibraryError ''QhullError''))\<rparr>" "()" "0.2"]
    tetra_ok tetra_solid
  by auto

text \<open>
  C9, as the code has it. When the outlier removal raises, the stage yields the points
  it was given and the volume is that of their hull: the exception goes no further.
  The source does not compare the number of points with the neighbour count: when the
  library returns, on fewer than 20 points as on any other input, the stage yields
  what the library returned and the volume is that of its hull.
\<close>

theorem outlier_stage:
  "(remove_statistical_outlier deps solid = Inl e \<longrightarrow>
      clean deps solid = solid \<and>
      (HAS_VOLUME_DEPS deps \<and> PlyData_read deps path = Inr plydata \<and>
       load_solid_points plydata thr = Inr solid \<and> 4 \<le> length solid \<longrightarrow>
         calculate_splat_volume deps path thr = Inr (hull_volume deps solid))) \<and>
   (remove_statistical_outlier deps solid = Inr cl \<longrightarrow>
      clean deps solid = cl \<and>
      (HAS_VOLUME_DEPS deps \<and> PlyData_read deps path = Inr plydata \<and>
       load_solid_points plydata thr = Inr solid \<and> 4 \<le> length solid \<longrightarrow>
         calculate_splat_volume deps path thr = Inr (hull_volume deps cl)))"
  by (simp add: clean_def calculate_splat_volume_def bind_err_def)

theorem outlier_stage_witness:
  "calculate_splat_volume
     \<lparr>HAS_VOLUME_DEPS = True, PlyData_read = (\<lambda>p. Inr tetra),
      remove_statistical_outlier = (\<lambda>ps. Inl (LibraryError ''open3d'')),
      ConvexHull_volume = (\<lambda>ps. Inr (1 / 6))\<rparr> () 0.2 = Inr (1 / 6)"
  using outlier_stage
    [where deps = "\<lparr>HAS_VOLUME_DEPS = True, PlyData_read = (\<lambda>p. Inr tetra),
      remove_statistical_outlier = (\<lambda>ps. Inl (LibraryError ''open3d'')),
      ConvexHull_volume = (\<lambda>ps. Inr (1 / 6))\<rparr>"
      and solid = "[(0, 0, 0), (1, 0, 0), (0, 1, 0), (0, 0, 1)]"
      and e = "LibraryError ''open3d''" and path = "()" and plydata = tetra and thr = "0.2"]
    tetra_solid
  by (simp add: hull_volume_def)

text \<open>
  Four points, fewer than the 20 neighbours asked for, and a library that returns
  on them without raising (here with no point left): the stage yields what the
  library returned, not the points it was given, and the volume is 0 where the hull
  of the four points has volume \<open>1 / 6\<close>.
\<close>

theorem few_points_not_unfiltered:
  "length [(0, 0, 0), (1, 0, 0), (0, 1, 0), (0, 0, 1 :: real)] < 20 \<and>
   clean
     \<lparr>HAS_VOLUME_DEPS = True, PlyData_read = (\<lambda>p :: unit. Inr tetra),
      remove_statistical_outlier = (\<lambda>ps. Inr []),
      ConvexHull_volume = (\<lambda>ps. Inr (1 / 6))\<rparr>
     [(0, 0, 0), (1, 0, 0), (0, 1, 0), (0, 0, 1)] = [] \<and>
   calculate_splat_volume
     \<lparr>HAS_VOLUME_DEPS = True, PlyData_read = (\<lambda>p. Inr tetra),
      remove_statistical_outlier = (\<lambda>ps. Inr []),
      ConvexHull_volume = (\<lambda>ps. Inr (1 / 6))\<rparr> () 0.2 = Inr 0 \<and>
   hull_volume
     \<lparr>HAS_VOLUME_DEPS = True, PlyData_read = (\<lambda>p :: unit. Inr tetra),
      remove_statistical_outlier = (\<lambda>ps. Inr []),
      ConvexHull_volume = (\<lambda>ps. Inr (1 / 6))\<rparr>
     [(0, 0, 0), (1, 0, 0), (0, 1, 0), (0, 0, 1)] = 1 / 6"
  using tetra_solid
  by (simp add: clean_def hull_volume_def calculate_splat_volume_def bind_err_def)

lemma calculate_splat_volume_nonneg:
  assumes "\<And>ps v. ConvexHull_volume deps ps = Inr v \<Longrightarrow> 0 \<le> v"
    and "calculate_splat_volume deps path thr = Inr v"
  shows "0 \<le> v"
  using assms
  by (auto simp: calculate_splat_volume_def bind_err_def hull_volume_def
      split: if_splits sum.splits)


section \<open>The properties of each splat\<close>

lemma list3: "length xs = 3 \<Longrightarrow> xs = [xs ! 0, xs ! 1, xs ! 2]"
  by (auto simp: length_Suc_conv numeral_3_eq_3)

lemma row3: "length r = 9 \<Longrightarrow> drop 6 r = [r ! 6, r ! 7, r ! 8]"
  using list3 [of "drop 6 r"] by simp

text \<open>
  C7. Each transform is applied exactly when the rows have at least the columns it
  reads (9 for colour, 55 for opacity, 58 for scale, 62 for rotation), and the fixed
  default is taken otherwise. A record of exactly 9 columns gets its colour from
  columns 6 to 8, \<open>clip (c * 0.28209479177387814 + 0.5) 0 1\<close>, with opacity \<open>0.8\<close>,
  scale \<open>(0.01, 0.01, 0.01)\<close> and rotation \<open>(1, 0, 0, 0)\<close>.
\<close>

theorem column_fallback:
  "colors (extract_properties vertex_data vertex_count) =
     (if 9 \<le> ncols vertex_data
      then map (map (\<lambda>v. clip (v * 0.28209479177387814 + 0.5) 0 1)) (col_slice vertex_data 6 9)
      else replicate vertex_count [0.5, 0.5, 0.5]) \<and>
   opacity (extract_properties vertex_data vertex_count) =
     (if 55 \<le> ncols vertex_data
      then map (\<lambda>row. logistic (row ! 54)) (rows vertex_data)
      else replicate vertex_count 0.8) \<and>
   scale (extract_properties vertex_data vertex_count) =
     (if 58 \<le> ncols vertex_data
      then map (map exp) (col_slice vertex_data 55 58)
      else replicate vertex_count [0.01, 0.01, 0.01]) \<and>
   rot (extract_properties vertex_data vertex_count) =
     (if 62 \<le> ncols vertex_data
      then map (\<lambda>q. map (\<lambda>v. v / (linalg_norm q + 0.00000001)) q) (col_slice vertex_data 58 62)
      else replicate vertex_count [1, 0, 0, 0]) \<and>
   (ncols vertex_data = 9 \<and> rectangular vertex_data \<and>
    length (rows vertex_data) = vertex_count \<and> i < vertex_count \<longrightarrow>
      colors (extract_properties vertex_data vertex_count) ! i =
        [clip (rows vertex_data ! i ! 6 * 0.28209479177387814 + 0.5) 0 1,
         clip (rows vertex_data ! i ! 7 * 0.28209479177387814 + 0.5) 0 1,
         clip (rows vertex_data ! i ! 8 * 0.28209479177387814 + 0.5) 0 1] \<and>
      opacity (extract_properties vertex_data vertex_count) ! i = 0.8 \<and>
      scale (extract_properties vertex_data vertex_count) ! i = [0.01, 0.01, 0.01] \<and>
      rot (extract_properties vertex_data vertex_count) ! i = [1, 0, 0, 0])"
proof -
  have "length (rows vertex_data ! i) = 9"
    if "ncols vertex_data = 9" "rectangular vertex_data" "i < length (rows vertex_data)"
    using that by (simp add: rectangular_def list_all_length)
  then show ?thesis
    by (auto simp: extract_properties_def logistic_def col_slice_def row3)
qed

theorem column_fallback_witness:
  "colors (extract_properties \<lparr>rows = [[1, 2, 3, 0, 0, 0, 10, - 10, 0]], ncols = 9\<rparr> 1) ! 0
     = [1, 0, 0.5] \<and>
   opacity (extract_properties \<lparr>rows = [[1, 2, 3, 0, 0, 0, 10, - 10, 0]], ncols = 9\<rparr> 1) ! 0
     = 0.8 \<and>
   scale (extract_properties \<lparr>rows = [[1, 2, 3, 0, 0, 0, 10, - 10, 0]], ncols = 9\<rparr> 1) ! 0
     = [0.01, 0.01, 0.01] \<and>
   rot (extract_properties \<lparr>rows = [[1, 2, 3, 0, 0, 0, 10, - 10, 0]], ncols = 9\<rparr> 1) ! 0
     = [1, 0, 0, 0]"
  using column_fallback [of "\<lparr>rows = [[1, 2, 3, 0, 0, 0, 10, - 10, 0]], ncols = 9\<rparr>" 1 0]
  by (simp add: rectangular_def clip_def col_slice_def)


section \<open>Writing the records\<close>

lemma list4: "length xs = 4 \<Longrightarrow> xs = [xs ! 0, xs ! 1, xs ! 2, xs ! 3]"
  by (auto simp: length_Suc_conv eval_nat_numeral)

lemma trunc_unit_255: "0 \<le> x \<Longrightarrow> x \<le> 1 \<Longrightarrow> 0 \<le> py_trunc (x * 255) \<and> py_trunc (x * 255) \<le> 255"
proof -
  assume a: "0 \<le> x" "x \<le> 1"
  then have "0 \<le> x * 255" "x * 255 \<le> 255" by simp_all
  then show ?thesis by (simp add: py_trunc_def floor_le_iff)
qed

lemma trunc_signed_127:
  "- 1 \<le> x \<Longrightarrow> x \<le> 1 \<Longrightarrow> - 128 \<le> py_trunc (x * 127) \<and> py_trunc (x * 127) \<le> 127"
proof -
  assume a: "- 1 \<le> x" "x \<le> 1"
  then have b: "- 127 \<le> x * 127" "x * 127 \<le> 127" by simp_all
  show ?thesis
  proof (cases "0 \<le> x * 127")
    case True
    then show ?thesis using b by (simp add: py_trunc_def floor_le_iff le_floor_iff)
  next
    case False
    then have "\<lceil>x * 127\<rceil> \<le> 0" by (simp add: ceiling_le_iff)
    moreover have "- 127 \<le> \<lceil>x * 127\<rceil>" using b(1) by (simp add: le_ceiling_iff)
    ultimately show ?thesis using False by (simp add: py_trunc_def)
  qed
qed

lemma pack_B_unit: "0 \<le> x \<Longrightarrow> x \<le> 1 \<Longrightarrow> pack_B (py_trunc (x * 255)) = Inr (char_of (py_trunc (x * 255)))"
  using trunc_unit_255 [of x] by (simp add: pack_B_def)

lemma pack_b_signed:
  "- 1 \<le> x \<Longrightarrow> x \<le> 1 \<Longrightarrow> pack_b (py_trunc (x * 127)) = Inr (char_of (py_trunc (x * 127) mod 256))"
  using trunc_signed_127 [of x] by (simp add: pack_b_def)

lemma splat_record_decoded:
  assumes "decoded_splats a n" and "i < n"
  shows "splat_record pack_f a i
           = Inr (compact_record pack_f (positions a ! i) (scale a ! i) (colors a ! i)
                    (opacity a ! i) (rot a ! i))"
proof -
  let ?p = "positions a ! i" and ?s = "scale a ! i" and ?c = "colors a ! i"
  let ?o = "opacity a ! i" and ?q = "rot a ! i"
  have lens: "i < length (positions a)" "i < length (scale a)" "i < length (colors a)"
    "i < length (opacity a)" "i < length (rot a)"
    using assms by (simp_all add: decoded_splats_def)
  have p: "length ?p = 3" and s: "length ?s = 3"
    using assms lens by (simp_all add: decoded_splats_def list_all_length)
  have "?c \<in> set (colors a)" "?q \<in> set (rot a)"
    using lens by simp_all
  then have c: "length ?c = 3" "\<forall>x \<in> set ?c. 0 \<le> x \<and> x \<le> 1"
    and q: "length ?q = 4" "\<forall>x \<in> set ?q. - 1 \<le> x \<and> x \<le> 1"
    using assms(1) by (auto simp: decoded_splats_def list_all_iff)
  have o: "0 \<le> ?o" "?o \<le> 1"
    using assms lens by (simp_all add: decoded_splats_def list_all_length)
  obtain c0 c1 c2 where cl: "?c = [c0, c1, c2]"
    using c(1) by (auto simp: length_Suc_conv eval_nat_numeral)
  obtain q0 q1 q2 q3 where ql: "?q = [q0, q1, q2, q3]"
    using q(1) by (auto simp: length_Suc_conv eval_nat_numeral)
  have w3: "pack4 pack_B (py_trunc (c0 * 255)) (py_trunc (c1 * 255))
              (py_trunc (c2 * 255)) (py_trunc (?o * 255))
            = Inr (map (\<lambda>x. char_of (py_trunc (x * 255))) ([c0, c1, c2] @ [?o]))"
    using c(2) o by (simp add: cl pack4_def bind_err_def pack_B_unit)
  have w4: "pack4 pack_b (py_trunc (q0 * 127)) (py_trunc (q1 * 127))
              (py_trunc (q2 * 127)) (py_trunc (q3 * 127))
            = Inr (map (\<lambda>x. char_of (py_trunc (x * 127) mod 256)) [q0, q1, q2, q3])"
    using q(2) by (simp add: ql pack4_def bind_err_def pack_b_signed)
  show ?thesis
    using lens p s w3 w4
    by (simp add: splat_record_def bind_err_def getitem_def getitem2_def pack_fff_def cl ql
        compact_record_def)
qed

lemma length_compact_record:
  "length p = 3 \<Longrightarrow> length s = 3 \<Longrightarrow> length c = 3 \<Longrightarrow> length q = 4 \<Longrightarrow>
   length (compact_record pack_f p s c op q) = 32"
proof -
  have four: "length (f32_bytes v) = 4" for v by (cases v) simp
  have "length (concat (map (\<lambda>x. f32_bytes (pack_f x)) xs)) = 4 * length xs" for xs
    by (induction xs) (simp_all add: four)
  then show "length p = 3 \<Longrightarrow> length s = 3 \<Longrightarrow> length c = 3 \<Longrightarrow> length q = 4 \<Longrightarrow>
   length (compact_record pack_f p s c op q) = 32"
    by (simp add: compact_record_def)
qed

lemma write_loop_decoded:
  assumes "decoded_splats a n" and "\<forall>i \<in> set js. i < n"
  shows "write_loop pack_f a js out
           = Inr (out @ concat (map (\<lambda>i. compact_record pack_f (positions a ! i) (scale a ! i)
                    (colors a ! i) (opacity a ! i) (rot a ! i)) js))"
  using assms(2)
proof (induction js arbitrary: out)
  case Nil
  then show ?case by simp
next
  case (Cons j js)
  then show ?case
    by (simp add: splat_record_decoded [OF assms(1)] bind_err_def)
qed

lemma length_concat_const:
  "(\<And>x. x \<in> set xs \<Longrightarrow> length (g x) = k) \<Longrightarrow> length (concat (map g xs)) = k * length xs"
  by (induction xs) simp_all

lemma write_splat_decoded:
  assumes "decoded_splats a n"
  shows "write_splat pack_f a n
           = Inr (concat (map (\<lambda>i. compact_record pack_f (positions a ! i) (scale a ! i)
                    (colors a ! i) (opacity a ! i) (rot a ! i)) [0..<n])) \<and>
         (\<forall>out. write_splat pack_f a n = Inr out \<longrightarrow> length out = 32 * n)"
proof -
  let ?rec = "\<lambda>i. compact_record pack_f (positions a ! i) (scale a ! i)
                    (colors a ! i) (opacity a ! i) (rot a ! i)"
  have w: "write_splat pack_f a n = Inr (concat (map ?rec [0..<n]))"
    using write_loop_decoded [OF assms, of "[0..<n]" pack_f "[]"]
    by (simp add: write_splat_def)
  have "length (?rec i) = 32" if "i < n" for i
    using assms that
    by (intro length_compact_record) (simp_all add: decoded_splats_def list_all_length)
  then have "length (concat (map ?rec [0..<n])) = 32 * length [0..<n]"
    by (intro length_concat_const) simp
  then show ?thesis using w by simp
qed


text \<open>
  C6. For arrays that hold \<open>n\<close> decoded splats the writer raises nothing and emits,
  splat by splat, the record of the format: position and scale as three \<^verbatim>\<open>float32\<close>
  each, colour and opacity as four unsigned bytes \<open>int (value * 255)\<close>, rotation as four
  signed bytes \<open>int (component * 127)\<close>, every number truncated toward zero on its own.
  The output has \<open>32 * n\<close> bytes.
\<close>

theorem write_splat_layout:
  assumes "decoded_splats a n"
  shows "write_splat pack_f a n
           = Inr (concat (map (\<lambda>i. compact_record pack_f (positions a ! i) (scale a ! i)
                    (colors a ! i) (opacity a ! i) (rot a ! i)) [0..<n])) \<and>
         (\<forall>out. write_splat pack_f a n = Inr out \<longrightarrow> length out = 32 * n)"
  using assms by (rule write_splat_decoded)

lemma bytes_of_ints:
  "char_of (127 :: int) = CHR 0x7F" "char_of (254 :: int) = CHR 0xFE"
  "char_of (0 :: int) = CHR 0x00" "char_of (204 :: int) = CHR 0xCC"
  "char_of (- 63 :: int) = CHR 0xC1"
  by code_simp+

theorem write_splat_layout_witness:
  "write_splat (\<lambda>x. F32 (CHR 0x00) (CHR 0x00) (CHR 0x00) (CHR 0x00))
     \<lparr>positions = [[1, 2, 3]], colors = [[0.5, 0.999, 0]], opacity = [0.8],
      scale = [[1, 1, 1]], rot = [[1, - 0.5, 0, 0]]\<rparr> 1
   = Inr (replicate 24 (CHR 0x00) @
          [CHR 0x7F, CHR 0xFE, CHR 0x00, CHR 0xCC, CHR 0x7F, CHR 0xC1, CHR 0x00, CHR 0x00])"
  using write_splat_layout
    [of "\<lparr>positions = [[1, 2, 3]], colors = [[0.5, 0.999, 0]], opacity = [0.8],
      scale = [[1, 1, 1]], rot = [[1, - 0.5, 0, 0]]\<rparr>" 1
      "\<lambda>x. F32 (CHR 0x00) (CHR 0x00) (CHR 0x00) (CHR 0x00)"]
  by (simp add: decoded_splats_def compact_record_def py_trunc_def eval_nat_numeral bytes_of_ints)

lemma clip_unit: "0 \<le> clip x 0 1 \<and> clip x 0 1 \<le> 1"
  by (simp add: clip_def)

lemma sum_squares_bound:
  "0 \<le> sum_list (map (\<lambda>v. v * v) q) \<and> (\<forall>x \<in> set q. x * x \<le> sum_list (map (\<lambda>v. v * v) (q :: real list)))"
proof (induction q)
  case Nil
  then show ?case by simp
next
  case (Cons y q)
  have "0 \<le> y * y" by simp
  with Cons show ?case by (auto intro: add_nonneg_nonneg add_increasing add_increasing2)
qed

lemma abs_le_linalg_norm: "x \<in> set q \<Longrightarrow> \<bar>x\<bar> \<le> linalg_norm q"
proof -
  assume "x \<in> set q"
  then have "x * x \<le> sum_list (map (\<lambda>v. v * v) q)" using sum_squares_bound by blast
  then have "sqrt (x * x) \<le> sqrt (sum_list (map (\<lambda>v. v * v) q))"
    by (rule real_sqrt_le_mono)
  then show ?thesis by (simp only: real_sqrt_abs2 linalg_norm_def)
qed

lemma normalized_unit:
  assumes "x \<in> set q"
  shows "- 1 \<le> x / (linalg_norm q + 0.00000001) \<and> x / (linalg_norm q + 0.00000001) \<le> 1"
proof -
  let ?d = "linalg_norm q + 0.00000001"
  have "0 \<le> linalg_norm q" using sum_squares_bound [of q] by (simp add: linalg_norm_def)
  then have d: "0 < ?d" by simp
  have "\<bar>x\<bar> \<le> ?d" using abs_le_linalg_norm [OF assms] by simp
  then have "- ?d \<le> x" "x \<le> ?d" by linarith+
  then show ?thesis using d by (simp add: pos_le_divide_eq pos_divide_le_eq)
qed

lemma logistic_unit: "0 \<le> 1 / (1 + exp (- v)) \<and> 1 / (1 + exp (- v)) \<le> (1::real)"
  using logistic_bounds [of v] by (simp add: logistic_def)


lemma extract_properties_decoded:
  assumes "rectangular vertex_data" and "length (rows vertex_data) = vertex_count"
    and "3 \<le> ncols vertex_data"
  shows "decoded_splats (extract_properties vertex_data vertex_count) vertex_count"
proof -
  have len: "length row = ncols vertex_data" if "row \<in> set (rows vertex_data)" for row
    using assms(1) that by (simp add: rectangular_def list_all_iff)
  have pos: "length (positions (extract_properties vertex_data vertex_count)) = vertex_count"
    "list_all (\<lambda>p. length p = 3) (positions (extract_properties vertex_data vertex_count))"
    using assms(2,3) len by (auto simp: extract_properties_def col_slice_def list_all_iff)
  have sc: "length (scale (extract_properties vertex_data vertex_count)) = vertex_count"
    "list_all (\<lambda>p. length p = 3) (scale (extract_properties vertex_data vertex_count))"
    using assms(2) len by (auto simp: extract_properties_def col_slice_def list_all_iff)
  have co: "length (colors (extract_properties vertex_data vertex_count)) = vertex_count"
    "list_all (\<lambda>c. length c = 3 \<and> list_all (\<lambda>x. 0 \<le> x \<and> x \<le> 1) c)
       (colors (extract_properties vertex_data vertex_count))"
    using assms(2) len
    by (auto simp: extract_properties_def col_slice_def list_all_iff clip_unit)
  have op: "length (opacity (extract_properties vertex_data vertex_count)) = vertex_count"
    "list_all (\<lambda>x. 0 \<le> x \<and> x \<le> 1) (opacity (extract_properties vertex_data vertex_count))"
    using assms(2) logistic_unit
    by (auto simp: extract_properties_def list_all_iff)
  have ro: "length (rot (extract_properties vertex_data vertex_count)) = vertex_count"
    "list_all (\<lambda>q. length q = 4 \<and> list_all (\<lambda>x. - 1 \<le> x \<and> x \<le> 1) q)
       (rot (extract_properties vertex_data vertex_count))"
    using assms(2) len normalized_unit
    by (auto simp: extract_properties_def col_slice_def list_all_iff)
  show ?thesis using pos sc co op ro by (simp add: decoded_splats_def)
qed

lemma rectangular_rows_of_width:
  "rectangular (map_ndarray g (rows_of_width content header_len vertex_count w))" 
  if "vertex_count * w * 4 \<le> length content - header_len"
proof -
  let ?cells = "f32_cells (take (vertex_count * w * 4) (drop header_len content))"
  have n: "length ?cells = vertex_count * w" using that by (simp add: length_f32_cells)
  have "length (take w (drop (i * w) ?cells)) = w" if "i < vertex_count" for i
  proof -
    have "Suc i \<le> vertex_count" using that by simp
    then have "Suc i * w \<le> vertex_count * w" by (rule mult_le_mono1)
    then have "w \<le> vertex_count * w - i * w" by simp
    then show ?thesis by (simp only: length_take length_drop n min_def if_True) simp
  qed
  then show ?thesis
    by (simp add: rectangular_def map_ndarray_def rows_of_width_def list_all_iff)
qed


text \<open>
  What \<open>extract_properties\<close> makes of rows with at least 3 columns are decoded splats, so
  a conversion whose rows have at least 3 columns (and whose standard read the machine
  can allocate) writes \<open>32 * vertex_count\<close> bytes.
\<close>

lemma convert_payload_size:
  assumes "0 < vertex_count" and "can_read m (vertex_count * 62 * 4)"
    and "3 \<le> (if vertex_count * 62 * 4 \<le> length content - header_len then 62
               else (length content - header_len) div (vertex_count * 4))"
  shows "\<exists>out. convert_payload m f32_value pack_f content header_len vertex_count = Inr out \<and>
           length out = 32 * vertex_count"
proof -
  let ?L = "length content - header_len"
  let ?w = "if vertex_count * 62 * 4 \<le> ?L then 62 else ?L div (vertex_count * 4)"
  let ?vd = "rows_of_width content header_len vertex_count ?w"
  let ?a = "extract_properties (map_ndarray f32_value ?vd) vertex_count"
  have rd: "read_vertex_data m content header_len vertex_count = Inr ?vd"
    by (rule read_vertex_data_layout [OF assms(1,2)])
  have e: "vertex_count * (?L div (vertex_count * 4)) * 4 = ?L div (vertex_count * 4) * (vertex_count * 4)"
    by (simp only: ac_simps)
  have "vertex_count * (?L div (vertex_count * 4)) * 4 \<le> ?L"
    unfolding e by (rule div_times_less_eq_dividend)
  then have fits: "vertex_count * ?w * 4 \<le> ?L" by simp
  have "rectangular (map_ndarray f32_value ?vd)"
    using fits by (rule rectangular_rows_of_width)
  moreover have "length (rows (map_ndarray f32_value ?vd)) = vertex_count"
    by (simp add: map_ndarray_def rows_of_width_def)
  moreover have "3 \<le> ncols (map_ndarray f32_value ?vd)"
    using assms(3) by (simp add: map_ndarray_def rows_of_width_def)
  ultimately have "decoded_splats ?a vertex_count"
    by (rule extract_properties_decoded)
  then obtain out where "write_splat pack_f ?a vertex_count = Inr out"
    "length out = 32 * vertex_count"
    using write_splat_decoded [of ?a vertex_count pack_f] by blast
  then show ?thesis by (simp only: convert_payload_def rd bind_err_def sum.case) blast
qed



end
